theory Spec2Isabelle
  imports Main
begin

section \<open>Yelp business search: data model\<close>

text \<open>
  The script \<^verbatim>\<open>kwk/yelp_business_search.py\<close> talks to three collaborators that are not
  part of it: the HTTP API (\<^verbatim>\<open>requests.get\<close>), the libraries \<^verbatim>\<open>urllib\<close>, \<^verbatim>\<open>json\<close>,
  \<^verbatim>\<open>zipcodes\<close> and \<^verbatim>\<open>pandas\<close>, and the data store. The libraries' pure functions and
  the behaviour of the server and of the store are parameters of the model, bundled in
  the record \<open>env\<close>; what pandas does to a table is written out below. What the
  script prints is left out, and so are the request headers, which are the same for
  every request.

  Python exceptions are values of \<open>error\<close>; a function that can raise returns
  \<open>error + 'a\<close>, with \<open>Inl\<close> for the exception.
\<close>

datatype error =
    KeyError
  | IndexError
  | JSONDecodeError
  | OtherException string

text \<open>
  A business record is a decoded JSON object: field names with their values, in the
  order of the JSON text. The values are never inspected by the script, so their type
  is a parameter \<open>'v\<close>.
\<close>

type_synonym 'v business = "(string \<times> 'v) list"

text \<open>
  What \<^verbatim>\<open>json.loads(response.text)\<close> and the two subscripts \<^verbatim>\<open>['total']\<close> and
  \<^verbatim>\<open>['businesses']\<close> can meet: a search result with both keys (an integer \<^verbatim>\<open>total\<close> and
  an array \<^verbatim>\<open>businesses\<close> of records, as the API documents them), a JSON value without
  them (the subscript raises \<^verbatim>\<open>KeyError\<close>), or a text that is not JSON
  (\<^verbatim>\<open>json.loads\<close> raises \<^verbatim>\<open>JSONDecodeError\<close>).
\<close>

datatype 'v body =
    SearchResults int "'v business list"
  | OtherJson
  | NotJson

record 'v response =
  status_code :: int
  body :: "'v body"

text \<open>
  A cell of a pandas table: a Python object taken from a decoded record, the missing
  value \<^verbatim>\<open>NaN\<close>, a string, or a timestamp.
\<close>

datatype 'v cell =
    Obj 'v
  | NaN
  | Str string
  | Timestamp nat

type_synonym 'v row = "string \<rightharpoonup> 'v cell"

record 'v table =
  columns :: "string list"
  rows :: "'v row list"

record zipcode =
  zip_code :: string
  zip_city :: string
  zip_state :: string

text \<open>
  The environment. \<open>server sent url\<close> is the response to a GET of \<open>url\<close> after the
  requests \<open>sent\<close> were made (so the server may answer the same URL differently over
  time); \<open>utcnow sent\<close> is the clock reading at that point. \<open>quote_plus\<close>, \<open>dumps\<close>
  and \<open>filter_by\<close> stand for \<^verbatim>\<open>urllib.parse.quote_plus\<close>, \<^verbatim>\<open>json.dumps\<close> (applied to
  the value a cell holds) and \<^verbatim>\<open>zipcodes.filter_by(city=..., state=...)\<close>.
  \<open>read_sql\<close> and \<open>to_sql\<close> are the store's lookup and append, over a store of
  type \<open>'s\<close>.
\<close>

record ('v, 's) env =
  server :: "string list \<Rightarrow> string \<Rightarrow> 'v response"
  utcnow :: "string list \<Rightarrow> nat"
  quote_plus :: "string \<Rightarrow> string"
  dumps :: "'v cell \<Rightarrow> string"
  filter_by :: "string \<Rightarrow> string \<Rightarrow> zipcode list"
  read_sql :: "string \<Rightarrow> 's \<Rightarrow> error + 'v table"
  to_sql :: "'v table \<Rightarrow> string \<Rightarrow> string \<Rightarrow> 's \<Rightarrow> error + 's"

definition DESTINATION_SCHEMA :: string where
  "DESTINATION_SCHEMA = ''yelp''"

definition DESTINATION_TABLE :: string where
  "DESTINATION_TABLE = ''business_search_results''"

definition YELP_URL :: string where
  "YELP_URL = ''https://api.yelp.com/v3/businesses/search?''"

definition JSON_COLUMNS :: "string list" where
  "JSON_COLUMNS = [''categories'', ''coordinates'', ''transactions'', ''location'']"

section \<open>Python's strings and integers\<close>

text \<open>\<^verbatim>\<open>str(n)\<close> of an integer, as an f-string prints it.\<close>

fun str_nat :: "nat \<Rightarrow> string" where
  "str_nat n =
     (if n < 10 then [''0123456789'' ! n]
      else str_nat (n div 10) @ [''0123456789'' ! (n mod 10)])"

declare str_nat.simps [simp del]

definition str_int :: "int \<Rightarrow> string" where
  "str_int i = (if i < 0 then CHR ''-'' # str_nat (nat (- i)) else str_nat (nat i))"

text \<open>
  \<^verbatim>\<open>s.split(sep)\<close> for a non-empty separator: the pieces between the occurrences of
  \<open>sep\<close>, found from the left. \<open>cur\<close> is the piece being read, reversed.
\<close>

fun split_from :: "string \<Rightarrow> string \<Rightarrow> string \<Rightarrow> string list" where
  "split_from sep cur [] = [rev cur]"
| "split_from sep cur (c # cs) =
     (if sep \<noteq> [] \<and> take (length sep) (c # cs) = sep
      then rev cur # split_from sep [] (drop (length sep - 1) cs)
      else split_from sep (c # cur) cs)"

definition split :: "string \<Rightarrow> string \<Rightarrow> string list" where
  "split s sep = split_from sep [] s"

text \<open>\<^verbatim>\<open>xs[i]\<close> for a non-negative index: \<^verbatim>\<open>IndexError\<close> past the end.\<close>

definition index :: "'a list \<Rightarrow> nat \<Rightarrow> error + 'a" where
  "index xs i = (if i < length xs then Inr (xs ! i) else Inl IndexError)"

text \<open>The truth value of an optional string: \<^verbatim>\<open>None\<close> and \<^verbatim>\<open>''\<close> are falsy.\<close>

fun truthy :: "string option \<Rightarrow> bool" where
  "truthy None = False"
| "truthy (Some t) = (t \<noteq> [])"

section \<open>URL builder, count prober, location expander\<close>

definition yelp_search_url :: "('v, 's) env \<Rightarrow> string \<Rightarrow> string option \<Rightarrow> string" where
  "yelp_search_url e location term =
     (let term_param = (if truthy term then ''&term='' @ quote_plus e (the term) else '''');
          search_url = YELP_URL @ term_param @ ''&location='' @ quote_plus e location
                         @ ''&sort=distance''
      in search_url)"

text \<open>
  The functions that send requests take the list \<open>sent\<close> of the URLs requested so far
  and return it extended, next to their result.
\<close>

definition requests_get ::
  "('v, 's) env \<Rightarrow> string \<Rightarrow> string list \<Rightarrow> 'v response \<times> string list" where
  "requests_get e url sent = (server e sent url, sent @ [url])"

definition yelp_expected_result_count ::
  "('v, 's) env \<Rightarrow> string \<Rightarrow> string option \<Rightarrow> string list \<Rightarrow> error + (int \<times> string list)" where
  "yelp_expected_result_count e location term sent =
     (let search_url = yelp_search_url e location term;
          (response, sent') = requests_get e search_url sent
      in if status_code response = 200 then
           (case body response of
              NotJson \<Rightarrow> Inl JSONDecodeError
            | OtherJson \<Rightarrow> Inl KeyError
            | SearchResults total_count bs \<Rightarrow> Inr (total_count, sent'))
         else Inr (0, sent'))"

definition yelp_city_locations ::
  "('v, 's) env \<Rightarrow> string \<Rightarrow> string option \<Rightarrow> string list
     \<Rightarrow> error + ((string list \<times> int) \<times> string list)" where
  "yelp_city_locations e city term sent =
     (case yelp_expected_result_count e city term sent of
        Inl err \<Rightarrow> Inl err
      | Inr (expected_results, sent') \<Rightarrow>
          if expected_results > 1000 then
            (case index (split city '', '') 0 of
               Inl err \<Rightarrow> Inl err
             | Inr c \<Rightarrow>
                 (case index (split city '', '') 1 of
                    Inl err \<Rightarrow> Inl err
                  | Inr s \<Rightarrow>
                      (let filtered_zipcodes = filter_by e c s;
                           city_zips = map zip_code filtered_zipcodes;
                           locations = map (\<lambda>z. city @ '' '' @ z) city_zips
                       in Inr ((locations, expected_results), sent'))))
          else Inr (([city], expected_results), sent'))"

section \<open>Tables\<close>

text \<open>
  The pandas operations the script uses. A row maps a column name to its cell; a cell
  that a row does not have reads as \<^verbatim>\<open>NaN\<close>, as after \<^verbatim>\<open>pandas.concat\<close> of pages with
  different columns.
\<close>

definition first_seen :: "'a list \<Rightarrow> 'a list" where
  "first_seen xs = rev (remdups (rev xs))"

definition DataFrame :: "'v table" where
  "DataFrame = \<lparr>columns = [], rows = []\<rparr>"

text \<open>\<^verbatim>\<open>pandas.DataFrame.from_records(records)\<close> for a list of dicts.\<close>

definition from_records :: "'v business list \<Rightarrow> 'v table" where
  "from_records recs =
     \<lparr>columns = first_seen (concat (map (map fst) recs)),
      rows = map (\<lambda>b c. map_option Obj (map_of b c)) recs\<rparr>"

text \<open>\<^verbatim>\<open>df[c] = v\<close> for a scalar \<open>v\<close>: the column is added, or overwritten, in every row.\<close>

definition set_column :: "string \<Rightarrow> 'v cell \<Rightarrow> 'v table \<Rightarrow> 'v table" where
  "set_column c v t =
     \<lparr>columns = (if c \<in> set (columns t) then columns t else columns t @ [c]),
      rows = map (\<lambda>r. r(c \<mapsto> v)) (rows t)\<rparr>"

text \<open>\<^verbatim>\<open>pandas.concat(dfs, ignore_index=True)\<close> of a non-empty list of tables.\<close>

definition pandas_concat :: "'v table list \<Rightarrow> 'v table" where
  "pandas_concat dfs =
     \<lparr>columns = first_seen (concat (map columns dfs)),
      rows = concat (map rows dfs)\<rparr>"

definition cell_at :: "'v row \<Rightarrow> string \<Rightarrow> 'v cell" where
  "cell_at r c = (case r c of None \<Rightarrow> NaN | Some v \<Rightarrow> v)"

text \<open>
  \<^verbatim>\<open>df[JSON_COLUMNS] = df[JSON_COLUMNS].map(json.dumps).astype('string')\<close>: selecting
  a list of columns raises \<^verbatim>\<open>KeyError\<close> when one of them is not a column of the table.
\<close>

definition coerce_row :: "('v, 's) env \<Rightarrow> 'v row \<Rightarrow> 'v row" where
  "coerce_row e r =
     (\<lambda>c. if c \<in> set JSON_COLUMNS then Some (Str (dumps e (cell_at r c))) else r c)"

definition coerce_json_columns :: "('v, 's) env \<Rightarrow> 'v table \<Rightarrow> error + 'v table" where
  "coerce_json_columns e t =
     (if set JSON_COLUMNS \<subseteq> set (columns t)
      then Inr (t\<lparr>rows := map (coerce_row e) (rows t)\<rparr>)
      else Inl KeyError)"

text \<open>\<^verbatim>\<open>df.empty\<close>: no rows or no columns.\<close>

definition df_empty :: "'v table \<Rightarrow> bool" where
  "df_empty t = (rows t = [] \<or> columns t = [])"

definition str_bool :: "bool \<Rightarrow> string" where
  "str_bool b = (if b then ''True'' else ''False'')"

section \<open>Paginated fetcher\<close>

definition MAX_LIMIT :: int where
  "MAX_LIMIT = 50"

definition MAX_RESULTS :: int where
  "MAX_RESULTS = 1000"

text \<open>
  One page request as the loop issued it: the \<^verbatim>\<open>limit\<close> and \<^verbatim>\<open>offset\<close> of its URL, the
  \<^verbatim>\<open>total_count\<close> known when it was sent, and the response it got.
\<close>

record 'v exchange =
  req_limit :: int
  req_offset :: int
  known_total :: int
  reply :: "'v response"

text \<open>
  The variables of the loop of \<^verbatim>\<open>yelp_location_search\<close>. \<open>requested\<close> is the list of
  URLs requested so far; \<open>exchanges\<close> records the page requests of this loop, in order.
\<close>

record 'v loop_state =
  running_count :: int
  limit :: int
  total_count :: int
  page_dfs :: "'v table list"
  requested :: "string list"
  exchanges :: "'v exchange list"

text \<open>The variables as lines 93 to 96 set them.\<close>

definition initial_state :: "string list \<Rightarrow> 'v loop_state" where
  "initial_state sent =
     (let running_count0 = 0;
          limit0 = MAX_LIMIT
      in \<lparr>running_count = running_count0, limit = limit0,
          total_count = running_count0 + limit0, page_dfs = [],
          requested = sent, exchanges = []\<rparr>)"

definition loop_guard :: "'v loop_state \<Rightarrow> bool" where
  "loop_guard st =
     (running_count st + limit st \<le> MAX_RESULTS
      \<and> running_count st + limit st \<le> total_count st
      \<and> limit st > 0)"

text \<open>One run of the loop body (lines 99 to 131).\<close>

definition loop_body ::
  "('v, 's) env \<Rightarrow> string \<Rightarrow> 'v loop_state \<Rightarrow> error + 'v loop_state" where
  "loop_body e search_url st =
     (let page_url = search_url @ ''&limit='' @ str_int (limit st)
                       @ ''&offset='' @ str_int (running_count st);
          (response, sent') = requests_get e page_url (requested st);
          st1 = st\<lparr>requested := sent',
                   exchanges := exchanges st @
                     [\<lparr>req_limit = limit st, req_offset = running_count st,
                       known_total = total_count st, reply = response\<rparr>]\<rparr>
      in if status_code response = 200 then
           (case body response of
              NotJson \<Rightarrow> Inl JSONDecodeError
            | OtherJson \<Rightarrow> Inl KeyError
            | SearchResults new_total bs \<Rightarrow>
                (let page_count = int (length bs)
                 in if page_count = 0 then Inr (st1\<lparr>total_count := new_total, limit := 0\<rparr>)
                    else
                      (let rc = running_count st + page_count;
                           results_df = set_column ''_page_url'' (Str page_url) (from_records bs)
                       in Inr (st1\<lparr>total_count := new_total,
                                   running_count := rc,
                                   page_dfs := page_dfs st @ [results_df],
                                   limit := (if rc + MAX_LIMIT \<le> min new_total MAX_RESULTS
                                             then MAX_LIMIT
                                             else min new_total MAX_RESULTS - rc)\<rparr>))))
         else
           (case body response of
              NotJson \<Rightarrow> Inl JSONDecodeError
            | _ \<Rightarrow> Inr (st1\<lparr>limit := 0\<rparr>)))"

function page_loop ::
  "('v, 's) env \<Rightarrow> string \<Rightarrow> 'v loop_state \<Rightarrow> error + 'v loop_state" where
  "page_loop e search_url st =
     (if loop_guard st then
        (case loop_body e search_url st of
           Inl err \<Rightarrow> Inl err
         | Inr st' \<Rightarrow> page_loop e search_url st')
      else Inr st)"
  by pat_completeness auto
termination
proof (relation "measure (\<lambda>(e, u, st).
         if loop_guard st then nat (MAX_RESULTS - running_count st) else 0)")
  show "wf (measure (\<lambda>(e :: ('v, 's) env, u :: string, st :: 'v loop_state).
         if loop_guard st then nat (MAX_RESULTS - running_count st) else 0))"
    by simp
next
  fix e :: "('v, 's) env" and search_url :: string and st st' :: "'v loop_state"
  assume g: "loop_guard st" and b: "loop_body e search_url st = Inr st'"
  have lt: "running_count st < MAX_RESULTS"
    using g by (simp add: loop_guard_def)
  have up: "loop_guard st' \<Longrightarrow> running_count st < running_count st'"
    using g b
    by (auto simp: loop_body_def loop_guard_def requests_get_def Let_def
             split: if_splits body.splits)
  show "((e, search_url, st'), (e, search_url, st))
          \<in> measure (\<lambda>(e, u, st).
               if loop_guard st then nat (MAX_RESULTS - running_count st) else 0)"
  proof (cases "loop_guard st'")
    case True
    with up g lt show ?thesis by simp
  next
    case False
    with g lt show ?thesis by simp
  qed
qed

declare page_loop.simps [simp del]

text \<open>Lines 133 to 139.\<close>

definition is_complete :: "'v loop_state \<Rightarrow> bool" where
  "is_complete st = (if running_count st < total_count st then False else True)"

text \<open>\<^verbatim>\<open>term if term else ''\<close>, the value of the \<^verbatim>\<open>_term\<close> column and of the driver's filter.\<close>

definition term_or_empty :: "string option \<Rightarrow> string" where
  "term_or_empty term = (if truthy term then the term else [])"

definition yelp_location_search ::
  "('v, 's) env \<Rightarrow> string \<Rightarrow> string option \<Rightarrow> string list
     \<Rightarrow> error + ('v table \<times> string list)" where
  "yelp_location_search e location term sent =
     (let search_url = yelp_search_url e location term
      in case page_loop e search_url (initial_state sent) of
           Inl err \<Rightarrow> Inl err
         | Inr st \<Rightarrow>
             (let search_results =
                    (if page_dfs st \<noteq> [] then pandas_concat (page_dfs st) else DataFrame)
              in case coerce_json_columns e search_results of
                   Inl err \<Rightarrow> Inl err
                 | Inr coerced \<Rightarrow>
                     Inr (set_column ''_is_complete'' (Str (str_bool (is_complete st)))
                           (set_column ''_term'' (Str (term_or_empty term))
                             (set_column ''_location'' (Str location)
                               (set_column ''_loaded_at'' (Timestamp (utcnow e (requested st)))
                                 coerced))),
                          requested st)))"

section \<open>Driver\<close>

text \<open>
  What the driver changes: the requests sent and the store. An exception that the
  driver does not catch ends the run, so the driver's functions return \<open>error + world\<close>.
\<close>

record 's world =
  http_sent :: "string list"
  store :: 's

text \<open>The text of the lookup query (lines 192 to 197).\<close>

definition lookup_sql :: "string \<Rightarrow> string \<Rightarrow> string" where
  "lookup_sql location term_filter =
     ''\<newline>            SELECT DISTINCT 1''
     @ ''\<newline>            FROM '' @ DESTINATION_SCHEMA @ ''.'' @ DESTINATION_TABLE
     @ ''\<newline>            WHERE _location = '' @ [CHR 0x27] @ location @ [CHR 0x27]
     @ ''\<newline>            AND _term = '' @ [CHR 0x27] @ term_filter @ [CHR 0x27]
     @ ''\<newline>            ''"

text \<open>Lines 204 to 215: fetch one location and append the table to the store.\<close>

definition fetch_and_append ::
  "('v, 's) env \<Rightarrow> string \<Rightarrow> string option \<Rightarrow> 's world \<Rightarrow> error + 's world" where
  "fetch_and_append e location term w =
     (case yelp_location_search e location term (http_sent w) of
        Inl err \<Rightarrow> Inl err
      | Inr (yelp_data, sent') \<Rightarrow>
          (case to_sql e yelp_data DESTINATION_TABLE DESTINATION_SCHEMA (store w) of
             Inl ex \<Rightarrow> Inr (w\<lparr>http_sent := sent'\<rparr>)
           | Inr store' \<Rightarrow> Inr \<lparr>http_sent = sent', store = store'\<rparr>))"

text \<open>Lines 186 to 215: the body of the loop over the locations.\<close>

definition load_location ::
  "('v, 's) env \<Rightarrow> string \<Rightarrow> string option \<Rightarrow> 's world \<Rightarrow> error + 's world" where
  "load_location e location term w =
     (let term_filter = term_or_empty term;
          loaded_data =
            (case read_sql e (lookup_sql location term_filter) (store w) of
               Inl ex \<Rightarrow> DataFrame
             | Inr df \<Rightarrow> df)
      in if df_empty loaded_data then fetch_and_append e location term w
         else Inr w)"

fun load_locations ::
  "('v, 's) env \<Rightarrow> string option \<Rightarrow> string list \<Rightarrow> 's world \<Rightarrow> error + 's world" where
  "load_locations e term [] w = Inr w"
| "load_locations e term (location # locations) w =
     (case load_location e location term w of
        Inl err \<Rightarrow> Inl err
      | Inr w' \<Rightarrow> load_locations e term locations w')"

fun load_terms ::
  "('v, 's) env \<Rightarrow> string \<Rightarrow> string option list \<Rightarrow> 's world \<Rightarrow> error + 's world" where
  "load_terms e city [] w = Inr w"
| "load_terms e city (term # terms) w =
     (case yelp_city_locations e city term (http_sent w) of
        Inl err \<Rightarrow> Inl err
      | Inr ((locations, expected_results), sent') \<Rightarrow>
          (case load_locations e term locations (w\<lparr>http_sent := sent'\<rparr>) of
             Inl err \<Rightarrow> Inl err
           | Inr w' \<Rightarrow> load_terms e city terms w'))"

fun load_cities ::
  "('v, 's) env \<Rightarrow> string list \<Rightarrow> string option list \<Rightarrow> 's world \<Rightarrow> error + 's world" where
  "load_cities e [] terms w = Inr w"
| "load_cities e (city # cities) terms w =
     (case load_terms e city terms w of
        Inl err \<Rightarrow> Inl err
      | Inr w' \<Rightarrow> load_cities e cities terms w')"

section \<open>Example environments\<close>

text \<open>
  Concrete environments on which the functions above can be run. Field values are
  kept as their JSON text, so \<^verbatim>\<open>json.dumps\<close> of a value is that text; the store is the
  list of the tables appended to it.
\<close>

definition example_quote_char :: "char \<Rightarrow> string" where
  "example_quote_char c =
     (let n = (of_char c :: nat);
          hex = (\<lambda>d :: nat. ''0123456789ABCDEF'' ! d)
      in if (48 \<le> n \<and> n \<le> 57) \<or> (65 \<le> n \<and> n \<le> 90) \<or> (97 \<le> n \<and> n \<le> 122)
            \<or> c \<in> set ''_.-~'' then [c]
         else if c = CHR '' '' then ''+''
         else [CHR ''%'', hex (n div 16), hex (n mod 16)])"

definition example_dumps :: "string cell \<Rightarrow> string" where
  "example_dumps c =
     (case c of Obj v \<Rightarrow> v | NaN \<Rightarrow> ''NaN'' | Str s \<Rightarrow> s | Timestamp n \<Rightarrow> str_nat n)"

definition example_zipcodes :: "string \<Rightarrow> string \<Rightarrow> zipcode list" where
  "example_zipcodes c s =
     (if c = ''Springfield'' \<and> s = ''IL''
      then [\<lparr>zip_code = ''62701'', zip_city = c, zip_state = s\<rparr>,
            \<lparr>zip_code = ''62702'', zip_city = c, zip_state = s\<rparr>]
      else [])"

text \<open>A server that answers the \<open>n\<close>-th request with the \<open>n\<close>-th response of a script.\<close>

definition scripted :: "'v response list \<Rightarrow> 'v response \<Rightarrow> string list \<Rightarrow> string \<Rightarrow> 'v response" where
  "scripted script otherwise sent url =
     (if length sent < length script then script ! length sent else otherwise)"

definition page_of :: "int \<Rightarrow> 'v business list \<Rightarrow> 'v response" where
  "page_of n bs = \<lparr>status_code = 200, body = SearchResults n bs\<rparr>"

definition server_error :: "'v response" where
  "server_error = \<lparr>status_code = 500, body = OtherJson\<rparr>"

definition example_business :: "string business" where
  "example_business =
     [(''id'', ''17''), (''categories'', ''[]''), (''coordinates'', ''[39.8, -89.6]''),
      (''transactions'', ''[]''), (''location'', ''{}'')]"

text \<open>
  The append of the example store: the table is added to the list when it goes to the
  table \<^verbatim>\<open>business_search_results\<close> of the schema \<^verbatim>\<open>yelp\<close>.
\<close>

definition example_append ::
  "string table \<Rightarrow> string \<Rightarrow> string \<Rightarrow> string table list \<Rightarrow> error + string table list" where
  "example_append df name schema st =
     (if name = ''business_search_results'' \<and> schema = ''yelp'' then Inr (st @ [df])
      else Inl (OtherException ''no such table''))"

definition example_env ::
  "(string list \<Rightarrow> string \<Rightarrow> string response)
     \<Rightarrow> (string \<Rightarrow> string table list \<Rightarrow> error + string table)
     \<Rightarrow> (string, string table list) env" where
  "example_env srv lookup =
     \<lparr>server = srv,
      utcnow = (\<lambda>sent. 1700000000 + length sent),
      quote_plus = (\<lambda>s. concat (map example_quote_char s)),
      dumps = example_dumps,
      filter_by = example_zipcodes,
      read_sql = lookup,
      to_sql = example_append\<rparr>"

text \<open>
  Two stores: one whose lookup always fails, as with the placeholder connection, and one
  that finds no row.
\<close>

definition no_store :: "string \<Rightarrow> string table list \<Rightarrow> error + string table" where
  "no_store sql st = Inl (OtherException ''no connection'')"

definition fresh_store :: "string \<Rightarrow> string table list \<Rightarrow> error + string table" where
  "fresh_store sql st = Inr DataFrame"

text \<open>The search URL for all businesses of Springfield, IL.\<close>

definition springfield_url :: string where
  "springfield_url =
     ''https://api.yelp.com/v3/businesses/search?&location=Springfield%2C+IL&sort=distance''"

text \<open>A location with 1500 businesses: every page holds 50 of them.\<close>

definition big_city_env :: "(string, string table list) env" where
  "big_city_env =
     example_env (\<lambda>sent url. page_of 1500 (replicate 50 example_business)) no_store"

text \<open>A location with no business at all.\<close>

definition nowhere_env :: "(string, string table list) env" where
  "nowhere_env = example_env (\<lambda>sent url. page_of 0 []) no_store"

text \<open>Page 1 holds 50 of 80 businesses, page 2 holds none.\<close>

definition dried_up_env :: "(string, string table list) env" where
  "dried_up_env =
     example_env (scripted [page_of 80 (replicate 50 example_business), page_of 80 []]
                    server_error) no_store"

text \<open>Page 1 holds 50 of 80 businesses, page 2 holds the other 30.\<close>

definition two_pages_env :: "(string, string table list) env" where
  "two_pages_env =
     example_env (scripted [page_of 80 (replicate 50 example_business),
                            page_of 80 (replicate 30 example_business)]
                    server_error) no_store"

text \<open>The first page reports 80 businesses and holds none.\<close>

definition empty_first_page_env :: "(string, string table list) env" where
  "empty_first_page_env = example_env (\<lambda>sent url. page_of 80 []) no_store"

text \<open>One page with the only business of the location.\<close>

definition one_business_env :: "(string, string table list) env" where
  "one_business_env =
     example_env (scripted [page_of 1 [example_business]] server_error) no_store"

text \<open>The server fails on every request.\<close>

definition failing_env :: "(string, string table list) env" where
  "failing_env = example_env (\<lambda>sent url. server_error) no_store"

text \<open>
  A store that holds rows for Springfield, IL and no term, and for nothing else: its
  lookup finds a row for exactly the query text of lines 192 to 197 with that location
  and the empty term filter.
\<close>

definition springfield_store :: "string \<Rightarrow> string table list \<Rightarrow> error + string table" where
  "springfield_store sql st =
     (if sql = ''\<newline>            SELECT DISTINCT 1''
                @ ''\<newline>            FROM yelp.business_search_results''
                @ ''\<newline>            WHERE _location = '' @ [CHR 0x27] @ ''Springfield, IL''
                @ [CHR 0x27]
                @ ''\<newline>            AND _term = '' @ [CHR 0x27, CHR 0x27]
                @ ''\<newline>            ''
      then Inr \<lparr>columns = [''1''], rows = [[''1'' \<mapsto> Obj ''1'']]\<rparr>
      else Inr DataFrame)"

text \<open>The placeholder connection: the lookup and the append both fail.\<close>

definition placeholder_env :: "(string, string table list) env" where
  "placeholder_env =
     (example_env (scripted [page_of 1 [example_business]] server_error) no_store)
       \<lparr>to_sql := (\<lambda>df name schema st. Inl (OtherException ''no connection''))\<rparr>"

text \<open>The cells of a table, row by row, in the order of its columns.\<close>

definition cells :: "'v table \<Rightarrow> 'v cell option list list" where
  "cells t = map (\<lambda>r. map r (columns t)) (rows t)"

section \<open>Predicates for the statements\<close>

text \<open>
  The states the loop can be in at the start of an iteration, from a first state \<open>st0\<close>:
  \<open>st0\<close> itself, and the state a run of the body leaves when it does not raise.
\<close>

inductive reachable ::
  "('v, 's) env \<Rightarrow> string \<Rightarrow> 'v loop_state \<Rightarrow> 'v loop_state \<Rightarrow> bool"
  for e :: "('v, 's) env" and search_url :: string and st0 :: "'v loop_state" where
  start: "reachable e search_url st0 st0"
| step: "reachable e search_url st0 st \<Longrightarrow> loop_guard st
         \<Longrightarrow> loop_body e search_url st = Inr st'
         \<Longrightarrow> reachable e search_url st0 st'"

code_pred (modes: i \<Rightarrow> i \<Rightarrow> i \<Rightarrow> o \<Rightarrow> bool) reachable .

text \<open>The URL of a page request (line 104).\<close>

definition page_url_of :: "string \<Rightarrow> 'v exchange \<Rightarrow> string" where
  "page_url_of search_url x =
     search_url @ ''&limit='' @ str_int (req_limit x) @ ''&offset='' @ str_int (req_offset x)"

text \<open>The page request that the body issues when it runs in the state \<open>st\<close>.\<close>

definition issued :: "('v, 's) env \<Rightarrow> string \<Rightarrow> 'v loop_state \<Rightarrow> 'v exchange" where
  "issued e search_url st =
     \<lparr>req_limit = limit st, req_offset = running_count st, known_total = total_count st,
      reply = server e (requested st)
                (search_url @ ''&limit='' @ str_int (limit st)
                   @ ''&offset='' @ str_int (running_count st))\<rparr>"

text \<open>A page request that respects the page size and the API's cap, and the loop guard.\<close>

definition within_limits :: "'v exchange \<Rightarrow> bool" where
  "within_limits x =
     (0 < req_limit x \<and> req_limit x \<le> MAX_LIMIT \<and> 0 \<le> req_offset x
      \<and> req_offset x + req_limit x \<le> MAX_RESULTS
      \<and> req_offset x + req_limit x \<le> known_total x)"

text \<open>
  A page request answered with HTTP 200 and a non-empty \<^verbatim>\<open>businesses\<close> array of at most
  \<^verbatim>\<open>limit\<close> records.
\<close>

definition page_ok :: "'v exchange \<Rightarrow> bool" where
  "page_ok x =
     (status_code (reply x) = 200
      \<and> (case body (reply x) of
            SearchResults n bs \<Rightarrow> bs \<noteq> [] \<and> int (length bs) \<le> req_limit x
          | OtherJson \<Rightarrow> False
          | NotJson \<Rightarrow> False))"

text \<open>A page that does not hold more records than the total it reports leaves room for.\<close>

definition within_total :: "'v exchange \<Rightarrow> bool" where
  "within_total x =
     (case body (reply x) of
        SearchResults n bs \<Rightarrow> req_offset x + int (length bs) \<le> n
      | OtherJson \<Rightarrow> False
      | NotJson \<Rightarrow> False)"

text \<open>The four metadata columns, in the order lines 150 to 153 add them.\<close>

definition METADATA_COLUMNS :: "string list" where
  "METADATA_COLUMNS = [''_loaded_at'', ''_location'', ''_term'', ''_is_complete'']"

text \<open>The row of the returned table that lines 147 to 153 make of a row of the pages.\<close>

definition final_row ::
  "('v, 's) env \<Rightarrow> string \<Rightarrow> string option \<Rightarrow> 'v loop_state \<Rightarrow> 'v row \<Rightarrow> 'v row" where
  "final_row e location term st r =
     (coerce_row e r)
       (''_loaded_at'' \<mapsto> Timestamp (utcnow e (requested st)),
        ''_location'' \<mapsto> Str location,
        ''_term'' \<mapsto> Str (term_or_empty term),
        ''_is_complete'' \<mapsto> Str (str_bool (is_complete st)))"

section \<open>Helper lemmas\<close>

lemma split_from_not_Nil: "split_from sep cur s \<noteq> []"
  by (induction s arbitrary: cur) simp_all

lemma split_from_separator:
  assumes "sep \<noteq> []"
  shows "2 \<le> length (split_from sep cur (a @ sep @ b))"
proof (induction a arbitrary: cur)
  case Nil
  from assms obtain c cs where sep: "sep = c # cs"
    by (cases sep) auto
  have "split_from sep cur (sep @ b)
          = rev cur # split_from sep [] (drop (length sep - 1) (cs @ b))"
    by (simp add: sep)
  moreover have "1 \<le> length (split_from sep [] (drop (length sep - 1) (cs @ b)))"
    using split_from_not_Nil [of sep "[]" "drop (length sep - 1) (cs @ b)"]
    by (cases "split_from sep [] (drop (length sep - 1) (cs @ b))") auto
  ultimately show ?case by simp
next
  case (Cons x a)
  show ?case
  proof (cases "take (length sep) (x # a @ sep @ b) = sep")
    case True
    have "1 \<le> length (split_from sep [] (drop (length sep - 1) (a @ sep @ b)))"
      using split_from_not_Nil [of sep "[]" "drop (length sep - 1) (a @ sep @ b)"]
      by (cases "split_from sep [] (drop (length sep - 1) (a @ sep @ b))") auto
    with True assms show ?thesis by simp
  next
    case False
    with Cons.IH [of "x # cur"] show ?thesis by simp
  qed
qed

lemma split_has_state:
  "2 \<le> length (split (a @ '', '' @ b) '', '')"
  unfolding split_def by (rule split_from_separator) simp

lemma probe_unfold:
  "yelp_expected_result_count e location term sent =
     (if status_code (server e sent (yelp_search_url e location term)) = 200 then
        (case body (server e sent (yelp_search_url e location term)) of
           SearchResults n bs \<Rightarrow> Inr (n, sent @ [yelp_search_url e location term])
         | OtherJson \<Rightarrow> Inl KeyError
         | NotJson \<Rightarrow> Inl JSONDecodeError)
      else Inr (0, sent @ [yelp_search_url e location term]))"
  by (simp add: yelp_expected_result_count_def requests_get_def Let_def split: body.splits)

lemma search_url_falsy_term:
  "\<not> truthy term \<Longrightarrow> yelp_search_url e location term = yelp_search_url e location None"
  by (simp add: yelp_search_url_def)

lemmas example_defs =
  example_env_def page_of_def server_error_def scripted_def example_quote_char_def
  example_zipcodes_def no_store_def fresh_store_def

lemmas url_defs = yelp_search_url_def YELP_URL_def Let_def

subsection \<open>The loop body and the loop\<close>

lemma loop_body_exchanges:
  assumes "loop_body e u st = Inr st'"
  shows "exchanges st' = exchanges st @ [issued e u st]"
    and "requested st' = requested st @ [page_url_of u (issued e u st)]"
  using assms
  by (auto simp: loop_body_def issued_def page_url_of_def requests_get_def Let_def
           split: if_splits body.splits)

lemma loop_body_limit:
  assumes "loop_body e u st = Inr st'" and "0 \<le> running_count st"
  shows "limit st' \<le> MAX_LIMIT" and "0 \<le> running_count st'"
  using assms
  by (auto simp: loop_body_def requests_get_def Let_def MAX_LIMIT_def MAX_RESULTS_def
           split: if_splits body.splits)

lemma loop_body_page_ok:
  assumes "loop_body e u st = Inr st'" and "page_ok (issued e u st)"
  obtains n bs where "body (reply (issued e u st)) = SearchResults n bs"
    and "bs \<noteq> []" and "int (length bs) \<le> limit st"
    and "running_count st' = running_count st + int (length bs)"
    and "total_count st' = n"
    and "limit st' = (if running_count st' + MAX_LIMIT \<le> min n MAX_RESULTS then MAX_LIMIT
                      else min n MAX_RESULTS - running_count st')"
  using assms
  by (auto simp: loop_body_def page_ok_def issued_def requests_get_def Let_def
           split: if_splits body.splits)

lemma page_loop_reachable:
  "page_loop e u st = Inr st' \<Longrightarrow> reachable e u st0 st \<Longrightarrow> reachable e u st0 st'"
proof (induction e u st rule: page_loop.induct)
  case (1 e u st)
  show ?case
  proof (cases "loop_guard st")
    case True
    with "1.prems"(1) obtain st1 where b: "loop_body e u st = Inr st1"
      and l: "page_loop e u st1 = Inr st'"
      by (auto simp: page_loop.simps [of e u st] split: sum.splits)
    from "1.prems"(2) True b have "reachable e u st0 st1"
      by (rule reachable.step)
    with "1.IH" [OF True b l] show ?thesis .
  next
    case False
    with "1.prems" show ?thesis
      by (simp add: page_loop.simps [of e u st])
  qed
qed

lemma page_loop_exit:
  "page_loop e u st = Inr st' \<Longrightarrow> \<not> loop_guard st'"
proof (induction e u st rule: page_loop.induct)
  case (1 e u st)
  show ?case
  proof (cases "loop_guard st")
    case True
    with "1.prems" obtain st1 where b: "loop_body e u st = Inr st1"
      and l: "page_loop e u st1 = Inr st'"
      by (auto simp: page_loop.simps [of e u st] split: sum.splits)
    from "1.IH" [OF True b l] show ?thesis .
  next
    case False
    with "1.prems" show ?thesis
      by (simp add: page_loop.simps [of e u st])
  qed
qed

lemma reachable_invariant:
  assumes "reachable e u (initial_state sent) st"
  shows "limit st \<le> MAX_LIMIT \<and> 0 \<le> running_count st
         \<and> list_all within_limits (exchanges st)
         \<and> requested st = sent @ map (page_url_of u) (exchanges st)"
  using assms
proof (induction rule: reachable.induct)
  case start
  show ?case by (simp add: initial_state_def)
next
  case (step st st')
  have "within_limits (issued e u st)"
    using step.IH step.hyps(2)
    by (simp add: within_limits_def issued_def loop_guard_def)
  with step.IH loop_body_exchanges [OF step.hyps(3)]
       loop_body_limit [OF step.hyps(3)]
  show ?case by simp
qed

lemma reachable_pages_ok:
  assumes "reachable e u (initial_state sent) st"
    and "list_all page_ok (exchanges st)"
  shows "running_count st \<le> MAX_RESULTS
         \<and> (\<not> loop_guard st \<longrightarrow> min (total_count st) MAX_RESULTS \<le> running_count st)
         \<and> (list_all within_total (exchanges st) \<longrightarrow> running_count st \<le> total_count st)"
  using assms
proof (induction rule: reachable.induct)
  case start
  show ?case
    by (simp add: initial_state_def loop_guard_def MAX_LIMIT_def MAX_RESULTS_def)
next
  case (step st st')
  note ex = loop_body_exchanges(1) [OF step.hyps(3)]
  from step.prems ex have ok: "page_ok (issued e u st)"
    and oks: "list_all page_ok (exchanges st)"
    by simp_all
  from loop_body_page_ok [OF step.hyps(3) ok]
  obtain n bs where b: "body (reply (issued e u st)) = SearchResults n bs"
    and len: "int (length bs) \<le> limit st"
    and rc: "running_count st' = running_count st + int (length bs)"
    and tot: "total_count st' = n"
    and lim: "limit st' = (if running_count st' + MAX_LIMIT \<le> min n MAX_RESULTS
                           then MAX_LIMIT else min n MAX_RESULTS - running_count st')"
    by blast
  have le: "running_count st' \<le> MAX_RESULTS"
    using step.hyps(2) len rc by (simp add: loop_guard_def)
  have exit: "\<not> loop_guard st' \<longrightarrow> min (total_count st') MAX_RESULTS \<le> running_count st'"
    using lim tot by (auto simp: loop_guard_def MAX_LIMIT_def split: if_splits)
  have "list_all within_total (exchanges st') \<longrightarrow> running_count st' \<le> total_count st'"
    using ex b rc tot by (simp add: within_total_def issued_def)
  with le exit show ?case by simp
qed

text \<open>
  A page answered with HTTP 200 and no business ends the loop at once: the state the
  body leaves is the state the loop returns, one request later, with \<^verbatim>\<open>running_count\<close>
  as it was and the total the page reported.
\<close>

lemma empty_page_ends_loop:
  assumes "loop_guard st"
    and "status_code (reply (issued e u st)) = 200"
    and "body (reply (issued e u st)) = SearchResults n []"
  shows "\<exists>st'. page_loop e u st = Inr st'
          \<and> exchanges st' = exchanges st @ [issued e u st]
          \<and> running_count st' = running_count st \<and> total_count st' = n
          \<and> page_dfs st' = page_dfs st
          \<and> (running_count st < n \<longrightarrow> \<not> is_complete st')"
proof -
  let ?st' = "st\<lparr>requested := requested st @ [page_url_of u (issued e u st)],
                  exchanges := exchanges st @ [issued e u st],
                  total_count := n, limit := 0\<rparr>"
  have b: "loop_body e u st = Inr ?st'"
    using assms(2,3)
    by (simp add: loop_body_def issued_def page_url_of_def requests_get_def Let_def)
  have "\<not> loop_guard ?st'"
    by (simp add: loop_guard_def)
  then have "page_loop e u ?st' = Inr ?st'"
    by (simp add: page_loop.simps [of e u ?st'])
  with assms(1) b have "page_loop e u st = Inr ?st'"
    by (simp add: page_loop.simps [of e u st])
  then show ?thesis
    by (intro exI [of _ ?st']) (simp add: is_complete_def)
qed

subsection \<open>Runs on the example environments\<close>

lemmas loop_eval =
  page_loop.simps loop_guard_def loop_body_def initial_state_def requests_get_def
  MAX_LIMIT_def MAX_RESULTS_def Let_def str_int_def str_nat.simps

lemma springfield_url:
  "yelp_search_url (example_env srv lookup) ''Springfield, IL'' None = springfield_url"
  by (simp add: springfield_url_def example_defs url_defs)

lemma big_city_run:
  "\<exists>st. page_loop big_city_env springfield_url (initial_state []) = Inr st
      \<and> list_all page_ok (exchanges st) \<and> list_all within_total (exchanges st)
      \<and> length (exchanges st) = 20
      \<and> running_count st = 1000 \<and> total_count st = 1500"
  by (simp add: loop_eval big_city_env_def example_defs page_ok_def within_total_def)

lemma two_pages_run:
  "\<exists>st. page_loop two_pages_env springfield_url (initial_state []) = Inr st
      \<and> list_all page_ok (exchanges st) \<and> list_all within_total (exchanges st)
      \<and> map (\<lambda>x. (req_limit x, req_offset x, known_total x)) (exchanges st)
          = [(50, 0, 50), (30, 50, 80)]
      \<and> running_count st = 80 \<and> total_count st = 80"
  by (simp add: loop_eval two_pages_env_def example_defs page_ok_def within_total_def)

lemma dried_up_run:
  "\<exists>st. page_loop dried_up_env springfield_url (initial_state []) = Inr st
      \<and> map (\<lambda>x. (req_limit x, req_offset x, known_total x)) (exchanges st)
          = [(50, 0, 50), (30, 50, 80)]
      \<and> map (page_url_of springfield_url) (exchanges st)
          = [springfield_url @ ''&limit=50&offset=0'',
             springfield_url @ ''&limit=30&offset=50'']
      \<and> running_count st = 50 \<and> total_count st = 80 \<and> length (page_dfs st) = 1"
  by (simp add: loop_eval dried_up_env_def example_defs page_url_of_def)

subsection \<open>Tables\<close>

lemma set_first_seen: "set (first_seen xs) = set xs"
  by (simp add: first_seen_def)

lemma rows_set_column: "rows (set_column c v t) = map (\<lambda>r. r(c \<mapsto> v)) (rows t)"
  by (simp add: set_column_def)

lemma columns_set_column:
  "columns (set_column c v t) = (if c \<in> set (columns t) then columns t else columns t @ [c])"
  by (simp add: set_column_def)

lemma rows_from_records:
  "rows (from_records bs) = map (\<lambda>b c. map_option Obj (map_of b c)) bs"
  by (simp add: from_records_def)

lemma set_columns_from_records:
  "set (columns (from_records bs)) = (\<Union>b\<in>set bs. fst ` set b)"
  by (simp add: from_records_def set_first_seen)

lemma rows_pandas_concat: "rows (pandas_concat dfs) = concat (map rows dfs)"
  by (simp add: pandas_concat_def)

lemma set_columns_pandas_concat:
  "set (columns (pandas_concat dfs)) = (\<Union>t\<in>set dfs. set (columns t))"
  by (simp add: pandas_concat_def set_first_seen)

lemmas table_simps =
  rows_set_column columns_set_column rows_from_records set_columns_from_records
  rows_pandas_concat set_columns_pandas_concat

lemma coerce_json_columns_Inr:
  "coerce_json_columns e t = Inr t'
     \<longleftrightarrow> set JSON_COLUMNS \<subseteq> set (columns t)
         \<and> t' = t\<lparr>rows := map (coerce_row e) (rows t)\<rparr>"
  by (auto simp: coerce_json_columns_def)

lemma final_row_cells:
  "c \<in> set JSON_COLUMNS \<Longrightarrow> final_row e location term st r c = Some (Str (dumps e (cell_at r c)))"
  "final_row e location term st r ''_loaded_at'' = Some (Timestamp (utcnow e (requested st)))"
  "final_row e location term st r ''_location'' = Some (Str location)"
  "final_row e location term st r ''_term'' = Some (Str (term_or_empty term))"
  "final_row e location term st r ''_is_complete'' = Some (Str (str_bool (is_complete st)))"
  "c \<notin> set JSON_COLUMNS \<union> set METADATA_COLUMNS \<Longrightarrow> final_row e location term st r c = r c"
  by (auto simp: final_row_def coerce_row_def JSON_COLUMNS_def METADATA_COLUMNS_def)

text \<open>What a returned table is made of.\<close>

lemma yelp_location_search_Inr:
  assumes "yelp_location_search e location term sent = Inr (t, sent')"
  obtains st where "page_loop e (yelp_search_url e location term) (initial_state sent) = Inr st"
    and "sent' = requested st"
    and "page_dfs st \<noteq> []"
    and "set JSON_COLUMNS \<subseteq> set (columns (pandas_concat (page_dfs st)))"
    and "rows t = map (final_row e location term st) (rows (pandas_concat (page_dfs st)))"
    and "columns t = columns (pandas_concat (page_dfs st))
           @ filter (\<lambda>c. c \<notin> set (columns (pandas_concat (page_dfs st)))) METADATA_COLUMNS"
proof -
  from assms obtain st
    where run: "page_loop e (yelp_search_url e location term) (initial_state sent) = Inr st"
    by (cases "page_loop e (yelp_search_url e location term) (initial_state sent)")
       (simp_all add: yelp_location_search_def)
  let ?pages = "if page_dfs st \<noteq> [] then pandas_concat (page_dfs st) else DataFrame"
  let ?meta = "\<lambda>coerced. set_column ''_is_complete'' (Str (str_bool (is_complete st)))
                  (set_column ''_term'' (Str (term_or_empty term))
                    (set_column ''_location'' (Str location)
                      (set_column ''_loaded_at'' (Timestamp (utcnow e (requested st)))
                        coerced)))"
  have unfold: "yelp_location_search e location term sent
          = (case coerce_json_columns e ?pages of
               Inl err \<Rightarrow> Inl err
             | Inr coerced \<Rightarrow> Inr (?meta coerced, requested st))"
    using run by (simp add: yelp_location_search_def Let_def)
  obtain coerced where co: "coerce_json_columns e ?pages = Inr coerced"
    and ts: "(t, sent') = (?meta coerced, requested st)"
  proof (cases "coerce_json_columns e ?pages")
    case (Inl err)
    with unfold assms show ?thesis by simp
  next
    case (Inr coerced)
    with unfold assms have "(t, sent') = (?meta coerced, requested st)" by simp
    with Inr show ?thesis by (rule that)
  qed
  from ts have t: "t = ?meta coerced" and s: "sent' = requested st"
    by simp_all
  from co have sub: "set JSON_COLUMNS \<subseteq> set (columns ?pages)"
    and c: "coerced = ?pages\<lparr>rows := map (coerce_row e) (rows ?pages)\<rparr>"
    by (simp_all add: coerce_json_columns_Inr)
  from sub have ne: "page_dfs st \<noteq> []"
    by (auto simp: DataFrame_def JSON_COLUMNS_def)
  have r: "rows t = map (final_row e location term st) (rows (pandas_concat (page_dfs st)))"
    using ne by (simp add: t c rows_set_column final_row_def)
  have "columns t = columns (pandas_concat (page_dfs st))
           @ filter (\<lambda>c. c \<notin> set (columns (pandas_concat (page_dfs st)))) METADATA_COLUMNS"
    using ne by (simp add: t c columns_set_column METADATA_COLUMNS_def)
  with run s ne sub r show thesis
    using that by (simp add: ne)
qed

text \<open>When the loop ends with no page accumulated, line 147 raises \<^verbatim>\<open>KeyError\<close>.\<close>

lemma no_page_raises:
  assumes "page_loop e (yelp_search_url e location term) (initial_state sent) = Inr st"
    and "page_dfs st = []"
  shows "yelp_location_search e location term sent = Inl KeyError"
  using assms
  by (simp add: yelp_location_search_def coerce_json_columns_def DataFrame_def JSON_COLUMNS_def)

subsection \<open>Tables of the example environments\<close>

lemmas fetch_eval =
  yelp_location_search_def url_defs loop_eval springfield_url_def
  coerce_json_columns_def JSON_COLUMNS_def DataFrame_def is_complete_def str_bool_def
  term_or_empty_def table_simps

lemma one_business_table_any:
  "\<exists>t. yelp_location_search
            (example_env (scripted [page_of 1 [example_business]] server_error) lookup)
            ''Springfield, IL'' None []
          = Inr (t, [springfield_url @ ''&limit=50&offset=0''])
      \<and> columns t = [''id'', ''categories'', ''coordinates'', ''transactions'', ''location'',
                      ''_page_url'', ''_loaded_at'', ''_location'', ''_term'', ''_is_complete'']
      \<and> map (\<lambda>r. map r (columns t)) (rows t)
          = [[Some (Obj ''17''), Some (Str ''[]''), Some (Str ''[39.8, -89.6]''),
              Some (Str ''[]''), Some (Str ''{}''),
              Some (Str (springfield_url @ ''&limit=50&offset=0'')),
              Some (Timestamp 1700000001), Some (Str ''Springfield, IL''), Some (Str ''''),
              Some (Str ''True'')]]"
  by (simp add: fetch_eval example_defs example_business_def
        from_records_def pandas_concat_def set_column_def first_seen_def coerce_row_def
        cell_at_def example_dumps_def)

lemma one_business_table:
  "\<exists>t. yelp_location_search one_business_env ''Springfield, IL'' None []
          = Inr (t, [springfield_url @ ''&limit=50&offset=0''])
      \<and> columns t = [''id'', ''categories'', ''coordinates'', ''transactions'', ''location'',
                      ''_page_url'', ''_loaded_at'', ''_location'', ''_term'', ''_is_complete'']
      \<and> map (\<lambda>r. map r (columns t)) (rows t)
          = [[Some (Obj ''17''), Some (Str ''[]''), Some (Str ''[39.8, -89.6]''),
              Some (Str ''[]''), Some (Str ''{}''),
              Some (Str (springfield_url @ ''&limit=50&offset=0'')),
              Some (Timestamp 1700000001), Some (Str ''Springfield, IL''), Some (Str ''''),
              Some (Str ''True'')]]"
  unfolding one_business_env_def by (rule one_business_table_any)

text \<open>
  Page 1 holds 50 of 80 businesses and page 2 none: the fetcher returns a table of 50 rows
  marked incomplete, after two requests.
\<close>

lemma dried_up_table:
  "\<exists>t sent'. yelp_location_search dried_up_env ''Springfield, IL'' None [] = Inr (t, sent')
      \<and> length sent' = 2 \<and> length (rows t) = 50
      \<and> list_all (\<lambda>r. r ''_is_complete'' = Some (Str ''False'')) (rows t)"
  by (simp add: fetch_eval dried_up_env_def example_defs example_business_def list_all_iff)

lemma placeholder_table:
  "\<exists>t. yelp_location_search placeholder_env ''Springfield, IL'' None []
          = Inr (t, [springfield_url @ ''&limit=50&offset=0''])
      \<and> length (rows t) = 1"
  by (simp add: fetch_eval placeholder_env_def example_defs example_business_def)

lemma black_owned_table_any:
  "\<exists>t. yelp_location_search
            (example_env (scripted [page_of 1 [example_business]] server_error) lookup)
            ''Springfield, IL'' (Some ''Black owned'') []
          = Inr (t, [''https://api.yelp.com/v3/businesses/search?&term=Black+owned&location=Springfield%2C+IL&sort=distance&limit=50&offset=0''])
      \<and> map (\<lambda>r. r ''_term'') (rows t) = [Some (Str ''Black owned'')]"
  by (simp add: fetch_eval example_defs example_business_def)

lemma nowhere_fetch:
  "yelp_location_search nowhere_env ''Springfield, IL'' None [] = Inl KeyError"
  by (simp add: fetch_eval nowhere_env_def example_defs)

section \<open>Count prober and location expander\<close>

text \<open>
  C8. The count prober returns the \<^verbatim>\<open>total\<close> of the decoded body when the response
  status is 200, and 0 for every other status, without raising; either way it has sent
  exactly one request, to the search URL.
\<close>

theorem expected_result_count_by_status:
  "(status_code (server e sent (yelp_search_url e location term)) = 200
      \<and> body (server e sent (yelp_search_url e location term)) = SearchResults n bs
    \<longrightarrow> yelp_expected_result_count e location term sent
          = Inr (n, sent @ [yelp_search_url e location term]))
   \<and> (status_code (server e sent (yelp_search_url e location term)) \<noteq> 200
    \<longrightarrow> yelp_expected_result_count e location term sent
          = Inr (0, sent @ [yelp_search_url e location term]))"
  by (simp add: probe_unfold)

theorem expected_result_count_by_status_witness:
  "yelp_expected_result_count big_city_env ''Springfield, IL'' (Some ''Black owned'') []
     = Inr (1500, [''https://api.yelp.com/v3/businesses/search?&term=Black+owned&location=Springfield%2C+IL&sort=distance''])
   \<and> yelp_expected_result_count failing_env ''Springfield, IL'' None []
     = Inr (0, [''https://api.yelp.com/v3/businesses/search?&location=Springfield%2C+IL&sort=distance''])"
  using expected_result_count_by_status
          [of big_city_env "[]" "''Springfield, IL''" "Some ''Black owned''" 1500
              "replicate 50 example_business"]
        expected_result_count_by_status
          [of failing_env "[]" "''Springfield, IL''" None 0 "[]"]
  by (simp add: big_city_env_def failing_env_def example_defs url_defs)

text \<open>
  C7. When the probed count is at most 1000, the location expander returns the input
  city alone, unchanged, with the probed count. A probe answered with a status other
  than 200 counts 0, so the city comes back alone with the count 0.
\<close>

theorem city_locations_single:
  "(yelp_expected_result_count e city term sent = Inr (n, sent') \<and> n \<le> 1000
    \<longrightarrow> yelp_city_locations e city term sent = Inr (([city], n), sent'))
   \<and> (status_code (server e sent (yelp_search_url e city term)) \<noteq> 200
    \<longrightarrow> yelp_city_locations e city term sent
          = Inr (([city], 0), sent @ [yelp_search_url e city term]))"
  by (simp add: yelp_city_locations_def probe_unfold)

theorem city_locations_single_witness:
  "yelp_city_locations failing_env ''Springfield, IL'' None []
     = Inr (([''Springfield, IL''], 0),
            [''https://api.yelp.com/v3/businesses/search?&location=Springfield%2C+IL&sort=distance''])
   \<and> yelp_city_locations one_business_env ''Springfield, IL'' None []
     = Inr (([''Springfield, IL''], 1),
            [''https://api.yelp.com/v3/businesses/search?&location=Springfield%2C+IL&sort=distance''])"
  using city_locations_single
          [of failing_env "''Springfield, IL''" None "[]" 0
              "[''https://api.yelp.com/v3/businesses/search?&location=Springfield%2C+IL&sort=distance'']"]
        city_locations_single
          [of one_business_env "''Springfield, IL''" None "[]" 1
              "[''https://api.yelp.com/v3/businesses/search?&location=Springfield%2C+IL&sort=distance'']"]
  by (simp add: failing_env_def one_business_env_def example_defs url_defs probe_unfold)

text \<open>
  C6. When the probed count exceeds 1000 and the city string has a state code after a
  \<^verbatim>\<open>", "\<close>, the location expander returns one location for every postal code that the
  lookup by city and state finds, each of them the city string, a space and the postal
  code, together with the probed count.
\<close>

theorem city_locations_by_zip:
  assumes "yelp_expected_result_count e city term sent = Inr (n, sent')"
    and "1000 < n"
    and "city = a @ '', '' @ b"
  shows "yelp_city_locations e city term sent
           = Inr ((map (\<lambda>z. city @ '' '' @ zip_code z)
                     (filter_by e (split city '', '' ! 0) (split city '', '' ! 1)), n),
                  sent')"
proof -
  have "2 \<le> length (split city '', '')"
    unfolding assms(3) by (rule split_has_state)
  then have "index (split city '', '') 0 = Inr (split city '', '' ! 0)"
    and "index (split city '', '') 1 = Inr (split city '', '' ! 1)"
    by (auto simp: index_def)
  with assms(1,2) show ?thesis
    by (simp add: yelp_city_locations_def Let_def comp_def)
qed

theorem city_locations_by_zip_witness:
  "yelp_city_locations big_city_env ''Springfield, IL'' None []
     = Inr (([''Springfield, IL 62701'', ''Springfield, IL 62702''], 1500),
            [''https://api.yelp.com/v3/businesses/search?&location=Springfield%2C+IL&sort=distance''])"
proof -
  have probe: "yelp_expected_result_count big_city_env ''Springfield, IL'' None []
      = Inr (1500, [''https://api.yelp.com/v3/businesses/search?&location=Springfield%2C+IL&sort=distance''])"
    by (simp add: big_city_env_def example_defs url_defs probe_unfold)
  have city: "''Springfield, IL'' = ''Springfield'' @ '', '' @ ''IL''"
    by simp
  have zips: "map (\<lambda>z. ''Springfield, IL'' @ '' '' @ zip_code z)
                (filter_by big_city_env (split ''Springfield, IL'' '', '' ! 0)
                   (split ''Springfield, IL'' '', '' ! 1))
              = [''Springfield, IL 62701'', ''Springfield, IL 62702'']"
    by (simp add: big_city_env_def example_defs split_def)
  have "(1000 :: int) < 1500"
    by simp
  from city_locations_by_zip [OF probe this city] show ?thesis
    unfolding zips .
qed

section \<open>Paginated fetcher: the requests\<close>

text \<open>
  C1. At the start of every iteration of the fetcher's loop, whatever the responses were
  so far: every page request issued has a positive \<^verbatim>\<open>limit\<close> of at most 50, and its
  \<^verbatim>\<open>offset + limit\<close> exceeds neither 1000 nor the \<^verbatim>\<open>total_count\<close> known when it was sent,
  that is, the loop guard held for it. The requests sent are exactly the page URLs with
  these \<^verbatim>\<open>limit\<close> and \<^verbatim>\<open>offset\<close> parameters, and the request that the next run of the body
  issues is within the same limits. (That a page holds at most \<^verbatim>\<open>limit\<close> businesses is
  not needed.)
\<close>

theorem page_requests_within_limits:
  assumes "reachable e search_url (initial_state sent) st"
  shows "list_all within_limits (exchanges st)
         \<and> requested st = sent @ map (page_url_of search_url) (exchanges st)
         \<and> (loop_guard st \<longrightarrow> within_limits (issued e search_url st))"
proof -
  note inv = reachable_invariant [OF assms]
  have "loop_guard st \<longrightarrow> within_limits (issued e search_url st)"
    using inv by (simp add: within_limits_def issued_def loop_guard_def)
  with inv show ?thesis by simp
qed

theorem page_requests_within_limits_witness:
  "\<exists>st. page_loop dried_up_env springfield_url (initial_state []) = Inr st
      \<and> map (\<lambda>x. (req_limit x, req_offset x, known_total x)) (exchanges st)
          = [(50, 0, 50), (30, 50, 80)]
      \<and> list_all within_limits (exchanges st)
      \<and> requested st = [springfield_url @ ''&limit=50&offset=0'',
                         springfield_url @ ''&limit=30&offset=50'']"
proof -
  from dried_up_run obtain st
    where run: "page_loop dried_up_env springfield_url (initial_state []) = Inr st"
      and xs: "map (\<lambda>x. (req_limit x, req_offset x, known_total x)) (exchanges st)
                 = [(50, 0, 50), (30, 50, 80)]"
      and urls: "map (page_url_of springfield_url) (exchanges st)
                 = [springfield_url @ ''&limit=50&offset=0'',
                    springfield_url @ ''&limit=30&offset=50'']"
    by (elim exE conjE) (rule that, assumption+)
  have "reachable dried_up_env springfield_url (initial_state []) st"
    using run reachable.start by (rule page_loop_reachable)
  from page_requests_within_limits [OF this]
  have lim: "list_all within_limits (exchanges st)"
    and "requested st = [] @ map (page_url_of springfield_url) (exchanges st)"
    by simp_all
  then have req: "requested st = [springfield_url @ ''&limit=50&offset=0'',
                                  springfield_url @ ''&limit=30&offset=50'']"
    unfolding urls by simp
  show ?thesis
    by (rule exI [of _ st], intro conjI) (fact run xs lim req)+
qed

text \<open>
  C2, as the code has it. If every page request of the loop is answered with HTTP 200
  and a non-empty \<^verbatim>\<open>businesses\<close> array of at most \<^verbatim>\<open>limit\<close> records, then after the loop
  \<^verbatim>\<open>is_complete\<close> is true exactly when the last reported total is at most 1000. When that
  total exceeds 1000 the loop stops at \<^verbatim>\<open>running_count = 1000\<close>, below \<^verbatim>\<open>total_count\<close>.
  When, in addition, no page holds more records than the total it reports leaves room
  for, \<^verbatim>\<open>running_count\<close> is the smaller of \<^verbatim>\<open>total_count\<close> and 1000; so for a total of
  at most 1000, \<^verbatim>\<open>is_complete\<close> is true and \<^verbatim>\<open>running_count = total_count\<close>.
\<close>

theorem complete_iff_total_within_cap:
  assumes "page_loop e search_url (initial_state sent) = Inr st"
    and "list_all page_ok (exchanges st)"
  shows "is_complete st = (total_count st \<le> MAX_RESULTS)
         \<and> (MAX_RESULTS < total_count st \<longrightarrow> running_count st = MAX_RESULTS)
         \<and> (list_all within_total (exchanges st)
              \<longrightarrow> running_count st = min (total_count st) MAX_RESULTS)
         \<and> (list_all within_total (exchanges st) \<and> total_count st \<le> MAX_RESULTS
              \<longrightarrow> is_complete st \<and> running_count st = total_count st)"
proof -
  have r: "reachable e search_url (initial_state sent) st"
    using assms(1) reachable.start by (rule page_loop_reachable)
  have x: "\<not> loop_guard st"
    using assms(1) by (rule page_loop_exit)
  from reachable_pages_ok [OF r assms(2)] x
  have le: "running_count st \<le> MAX_RESULTS"
    and ge: "min (total_count st) MAX_RESULTS \<le> running_count st"
    and tot: "list_all within_total (exchanges st) \<longrightarrow> running_count st \<le> total_count st"
    by simp_all
  from le ge have "is_complete st = (total_count st \<le> MAX_RESULTS)"
    by (auto simp: is_complete_def)
  moreover from le ge have "MAX_RESULTS < total_count st \<longrightarrow> running_count st = MAX_RESULTS"
    by auto
  moreover from le ge tot
  have "list_all within_total (exchanges st)
          \<longrightarrow> running_count st = min (total_count st) MAX_RESULTS"
    by auto
  ultimately show ?thesis by auto
qed

theorem complete_iff_total_within_cap_witness:
  "(\<exists>st. page_loop two_pages_env springfield_url (initial_state []) = Inr st
       \<and> total_count st = 80 \<and> running_count st = 80 \<and> is_complete st)
   \<and> (\<exists>st. page_loop big_city_env springfield_url (initial_state []) = Inr st
       \<and> total_count st = 1500 \<and> running_count st = MAX_RESULTS \<and> \<not> is_complete st)"
proof -
  from two_pages_run obtain st
    where run: "page_loop two_pages_env springfield_url (initial_state []) = Inr st"
      and ok: "list_all page_ok (exchanges st)"
      and wt: "list_all within_total (exchanges st)"
      and tot: "total_count st = 80"
    by (elim exE conjE) (rule that, assumption+)
  from complete_iff_total_within_cap [OF run ok] wt tot
  have rc: "running_count st = 80" and c: "is_complete st"
    by (simp_all add: MAX_RESULTS_def)
  have a: "\<exists>st. page_loop two_pages_env springfield_url (initial_state []) = Inr st
       \<and> total_count st = 80 \<and> running_count st = 80 \<and> is_complete st"
    by (rule exI [of _ st], intro conjI) (fact run tot rc c)+
  from big_city_run obtain st'
    where run': "page_loop big_city_env springfield_url (initial_state []) = Inr st'"
      and ok': "list_all page_ok (exchanges st')"
      and tot': "total_count st' = 1500"
    by (elim exE conjE) (rule that, assumption+)
  from complete_iff_total_within_cap [OF run' ok'] tot'
  have rc': "running_count st' = MAX_RESULTS" and c': "\<not> is_complete st'"
    by (simp_all add: MAX_RESULTS_def)
  have "\<exists>st. page_loop big_city_env springfield_url (initial_state []) = Inr st
       \<and> total_count st = 1500 \<and> running_count st = MAX_RESULTS \<and> \<not> is_complete st"
    by (rule exI [of _ st'], intro conjI) (fact run' tot' rc' c')+
  with a show ?thesis by (rule conjI)
qed

text \<open>
  C2 as stated fails: a location that reports 1500 businesses and serves 50 on every
  page answers every request with HTTP 200 and a full, non-empty page, and the loop ends
  after 20 requests with \<^verbatim>\<open>running_count = 1000\<close>, \<^verbatim>\<open>total_count = 1500\<close> and
  \<^verbatim>\<open>is_complete\<close> false.
\<close>

theorem complete_above_cap_counterexample:
  "map_sum id (list_all page_ok \<circ> exchanges)
     (page_loop big_city_env springfield_url (initial_state [])) = Inr True
   \<and> map_sum id (length \<circ> exchanges)
       (page_loop big_city_env springfield_url (initial_state [])) = Inr 20
   \<and> map_sum id running_count
       (page_loop big_city_env springfield_url (initial_state [])) = Inr 1000
   \<and> map_sum id total_count
       (page_loop big_city_env springfield_url (initial_state [])) = Inr 1500
   \<and> map_sum id is_complete
       (page_loop big_city_env springfield_url (initial_state [])) = Inr False"
proof -
  from big_city_run obtain st
    where run: "page_loop big_city_env springfield_url (initial_state []) = Inr st"
      and ok: "list_all page_ok (exchanges st)" and n: "length (exchanges st) = 20"
      and rc: "running_count st = 1000" and tot: "total_count st = 1500"
    by (elim exE conjE) (rule that, assumption+)
  from rc tot have "\<not> is_complete st"
    by (simp add: is_complete_def)
  with ok n rc tot show ?thesis
    unfolding run by simp
qed

section \<open>Paginated fetcher: the returned table\<close>

text \<open>
  C9. Every table the fetcher returns has the four columns \<^verbatim>\<open>categories\<close>,
  \<^verbatim>\<open>coordinates\<close>, \<^verbatim>\<open>transactions\<close> and \<^verbatim>\<open>location\<close>, and each of their cells is the
  string \<^verbatim>\<open>json.dumps\<close> makes of the value the cell had in the concatenated pages, never
  that value itself. To the columns of the pages (the fields of the records and
  \<^verbatim>\<open>_page_url\<close>) the table adds exactly the four metadata columns \<^verbatim>\<open>_loaded_at\<close>,
  \<^verbatim>\<open>_location\<close>, \<^verbatim>\<open>_term\<close> and \<^verbatim>\<open>_is_complete\<close>, which hold in every row the clock reading,
  the queried location, the term or the empty string, and \<^verbatim>\<open>"True"\<close> or \<^verbatim>\<open>"False"\<close> for
  the completeness flag. Every other cell is as in the pages.
\<close>

theorem returned_table_columns:
  assumes "yelp_location_search e location term sent = Inr (t, sent')"
  shows "\<exists>st. page_loop e (yelp_search_url e location term) (initial_state sent) = Inr st
          \<and> set JSON_COLUMNS \<subseteq> set (columns t)
          \<and> columns t = columns (pandas_concat (page_dfs st))
               @ filter (\<lambda>c. c \<notin> set (columns (pandas_concat (page_dfs st)))) METADATA_COLUMNS
          \<and> list_all2
               (\<lambda>r r0.
                  (\<forall>c \<in> set JSON_COLUMNS. r c = Some (Str (dumps e (cell_at r0 c))))
                  \<and> r ''_loaded_at'' = Some (Timestamp (utcnow e sent'))
                  \<and> r ''_location'' = Some (Str location)
                  \<and> r ''_term'' = Some (Str (if truthy term then the term else ''''))
                  \<and> r ''_is_complete''
                      = Some (Str (if is_complete st then ''True'' else ''False''))
                  \<and> (\<forall>c. c \<notin> set JSON_COLUMNS \<union> set METADATA_COLUMNS \<longrightarrow> r c = r0 c))
               (rows t) (rows (pandas_concat (page_dfs st)))"
proof -
  from assms obtain st
    where run: "page_loop e (yelp_search_url e location term) (initial_state sent) = Inr st"
      and s: "sent' = requested st"
      and sub: "set JSON_COLUMNS \<subseteq> set (columns (pandas_concat (page_dfs st)))"
      and r: "rows t = map (final_row e location term st) (rows (pandas_concat (page_dfs st)))"
      and c: "columns t = columns (pandas_concat (page_dfs st))
                @ filter (\<lambda>c. c \<notin> set (columns (pandas_concat (page_dfs st)))) METADATA_COLUMNS"
    by (rule yelp_location_search_Inr)
  from sub c have "set JSON_COLUMNS \<subseteq> set (columns t)"
    by auto
  moreover have "list_all2
               (\<lambda>r r0.
                  (\<forall>c \<in> set JSON_COLUMNS. r c = Some (Str (dumps e (cell_at r0 c))))
                  \<and> r ''_loaded_at'' = Some (Timestamp (utcnow e sent'))
                  \<and> r ''_location'' = Some (Str location)
                  \<and> r ''_term'' = Some (Str (if truthy term then the term else ''''))
                  \<and> r ''_is_complete''
                      = Some (Str (if is_complete st then ''True'' else ''False''))
                  \<and> (\<forall>c. c \<notin> set JSON_COLUMNS \<union> set METADATA_COLUMNS \<longrightarrow> r c = r0 c))
               (rows t) (rows (pandas_concat (page_dfs st)))"
    unfolding r s
    by (simp add: list_all2_map1 list_all2_same final_row_cells term_or_empty_def str_bool_def)
  ultimately show ?thesis
    using run c by blast
qed

theorem returned_table_columns_witness:
  "\<exists>t. yelp_location_search one_business_env ''Springfield, IL'' None []
          = Inr (t, [springfield_url @ ''&limit=50&offset=0''])
      \<and> set JSON_COLUMNS \<subseteq> set (columns t)
      \<and> columns t = [''id'', ''categories'', ''coordinates'', ''transactions'', ''location'',
                      ''_page_url'', ''_loaded_at'', ''_location'', ''_term'', ''_is_complete'']
      \<and> map (\<lambda>r. map r (columns t)) (rows t)
          = [[Some (Obj ''17''), Some (Str ''[]''), Some (Str ''[39.8, -89.6]''),
              Some (Str ''[]''), Some (Str ''{}''),
              Some (Str (springfield_url @ ''&limit=50&offset=0'')),
              Some (Timestamp 1700000001), Some (Str ''Springfield, IL''), Some (Str ''''),
              Some (Str ''True'')]]"
proof -
  from one_business_table obtain t
    where run: "yelp_location_search one_business_env ''Springfield, IL'' None []
                  = Inr (t, [springfield_url @ ''&limit=50&offset=0''])"
      and cols: "columns t = [''id'', ''categories'', ''coordinates'', ''transactions'',
                   ''location'', ''_page_url'', ''_loaded_at'', ''_location'', ''_term'',
                   ''_is_complete'']"
      and cells: "map (\<lambda>r. map r (columns t)) (rows t)
          = [[Some (Obj ''17''), Some (Str ''[]''), Some (Str ''[39.8, -89.6]''),
              Some (Str ''[]''), Some (Str ''{}''),
              Some (Str (springfield_url @ ''&limit=50&offset=0'')),
              Some (Timestamp 1700000001), Some (Str ''Springfield, IL''), Some (Str ''''),
              Some (Str ''True'')]]"
    by (elim exE conjE) (rule that, assumption+)
  from returned_table_columns [OF run] have sub: "set JSON_COLUMNS \<subseteq> set (columns t)"
    by (elim exE conjE)
  show ?thesis
    by (rule exI [of _ t], intro conjI) (fact run sub cols cells)+
qed

text \<open>
  C3. The claim is that the fetcher returns a table for every sequence of responses, an
  empty one when no page was fetched. The code does not: for a location without any
  business (HTTP 200, total 0, no businesses), and likewise when the first request
  fails with HTTP 500, the accumulator is empty, the table is the empty
  \<^verbatim>\<open>pandas.DataFrame()\<close>, and selecting the JSON columns from it on line 147 raises
  \<^verbatim>\<open>KeyError\<close>.
\<close>

theorem no_result_raises_KeyError:
  "yelp_location_search nowhere_env ''Springfield, IL'' None [] = Inl KeyError
   \<and> yelp_location_search failing_env ''Springfield, IL'' None [] = Inl KeyError"
  by (simp add: fetch_eval nowhere_env_def failing_env_def example_defs)

text \<open>
  C4. The claim is that a page with no business, met while \<^verbatim>\<open>running_count\<close> is below
  \<^verbatim>\<open>total_count\<close>, ends the loop and gives a table marked incomplete. When that page is
  the first one (it reports 80 businesses and holds none), the loop ends after this one
  request, and line 147 raises \<^verbatim>\<open>KeyError\<close> on the empty table instead of returning it.
\<close>

theorem empty_first_page_raises_KeyError:
  "yelp_location_search empty_first_page_env ''Springfield, IL'' None [] = Inl KeyError
   \<and> map_sum id (length \<circ> exchanges)
       (page_loop empty_first_page_env springfield_url (initial_state [])) = Inr 1
   \<and> map_sum id running_count
       (page_loop empty_first_page_env springfield_url (initial_state [])) = Inr 0
   \<and> map_sum id total_count
       (page_loop empty_first_page_env springfield_url (initial_state [])) = Inr 80
   \<and> map_sum id is_complete
       (page_loop empty_first_page_env springfield_url (initial_state [])) = Inr False"
  by (simp add: fetch_eval empty_first_page_env_def example_defs)

section \<open>Empty term and absent term\<close>

text \<open>
  C10. The URL builder gives the same URL for the empty term and for no term: the
  \<^verbatim>\<open>term\<close> parameter is left out whenever the term is falsy. The fetcher then sends the
  same requests and returns the same table in both cases, with the empty string in the
  \<^verbatim>\<open>_term\<close> column of every row, and the driver looks up and loads the same rows.
\<close>

theorem empty_term_is_no_term:
  "yelp_search_url e location (Some '''') = yelp_search_url e location None
   \<and> yelp_location_search e location (Some '''') sent
       = yelp_location_search e location None sent
   \<and> (yelp_location_search e location None sent = Inr (t, sent')
        \<longrightarrow> list_all (\<lambda>r. r ''_term'' = Some (Str '''')) (rows t))
   \<and> load_location e location (Some '''') w = load_location e location None w"
proof -
  have url: "yelp_search_url e location (Some '''') = yelp_search_url e location None"
    by (rule search_url_falsy_term) simp
  have empty: "term_or_empty (Some '''') = term_or_empty None"
    by (simp add: term_or_empty_def)
  have fetch: "yelp_location_search e location (Some '''') sent
                 = yelp_location_search e location None sent" for sent
    unfolding yelp_location_search_def url empty ..
  have "list_all (\<lambda>r. r ''_term'' = Some (Str '''')) (rows t)"
    if "yelp_location_search e location None sent = Inr (t, sent')"
  proof -
    from that obtain st
      where "rows t = map (final_row e location None st) (rows (pandas_concat (page_dfs st)))"
      by (rule yelp_location_search_Inr)
    then show ?thesis
      by (simp add: list_all_iff final_row_cells term_or_empty_def)
  qed
  moreover have "load_location e location (Some '''') w = load_location e location None w"
    unfolding load_location_def fetch_and_append_def fetch empty ..
  ultimately show ?thesis
    using url fetch by simp
qed

theorem empty_term_is_no_term_witness:
  "yelp_search_url one_business_env ''Springfield, IL'' (Some '''') = springfield_url
   \<and> yelp_search_url one_business_env ''Springfield, IL'' None = springfield_url
   \<and> (\<exists>t. yelp_location_search one_business_env ''Springfield, IL'' (Some '''') []
              = Inr (t, [springfield_url @ ''&limit=50&offset=0''])
          \<and> yelp_location_search one_business_env ''Springfield, IL'' None []
              = Inr (t, [springfield_url @ ''&limit=50&offset=0''])
          \<and> length (rows t) = 1
          \<and> list_all (\<lambda>r. r ''_term'' = Some (Str '''')) (rows t))"
proof -
  from one_business_table obtain t
    where run: "yelp_location_search one_business_env ''Springfield, IL'' None []
                  = Inr (t, [springfield_url @ ''&limit=50&offset=0''])"
      and cells: "map (\<lambda>r. map r (columns t)) (rows t)
          = [[Some (Obj ''17''), Some (Str ''[]''), Some (Str ''[39.8, -89.6]''),
              Some (Str ''[]''), Some (Str ''{}''),
              Some (Str (springfield_url @ ''&limit=50&offset=0'')),
              Some (Timestamp 1700000001), Some (Str ''Springfield, IL''), Some (Str ''''),
              Some (Str ''True'')]]"
    by (elim exE conjE) (rule that, assumption+)
  note inst = empty_term_is_no_term
               [of one_business_env "''Springfield, IL''" "[]" t
                   "[springfield_url @ ''&limit=50&offset=0'']"]
  have none: "yelp_search_url one_business_env ''Springfield, IL'' None = springfield_url"
    unfolding one_business_env_def by (rule springfield_url)
  from inst none
  have some: "yelp_search_url one_business_env ''Springfield, IL'' (Some '''') = springfield_url"
    by simp
  from inst run
  have run': "yelp_location_search one_business_env ''Springfield, IL'' (Some '''') []
                = Inr (t, [springfield_url @ ''&limit=50&offset=0''])"
    and terms: "list_all (\<lambda>r. r ''_term'' = Some (Str '''')) (rows t)"
    by simp_all
  from cells have "length (map (\<lambda>r. map r (columns t)) (rows t)) = 1"
    by simp
  then have len: "length (rows t) = 1"
    by simp
  have "\<exists>t. yelp_location_search one_business_env ''Springfield, IL'' (Some '''') []
              = Inr (t, [springfield_url @ ''&limit=50&offset=0''])
          \<and> yelp_location_search one_business_env ''Springfield, IL'' None []
              = Inr (t, [springfield_url @ ''&limit=50&offset=0''])
          \<and> length (rows t) = 1
          \<and> list_all (\<lambda>r. r ''_term'' = Some (Str '''')) (rows t)"
    by (rule exI [of _ t], intro conjI) (fact run' run len terms)+
  with some none show ?thesis
    by (intro conjI)
qed

section \<open>Driver: the lookup before loading\<close>

text \<open>
  C5. For a location and a term that the driver processes, the store is looked up with
  the query of lines 192 to 197 for that \<^verbatim>\<open>_location\<close> and \<^verbatim>\<open>_term\<close>. When the lookup
  returns a non-empty result, the driver sends no request and appends nothing: the
  requests sent and the store stay as they were. When the lookup raises an exception,
  the driver does exactly what it does when the lookup finds no row: it runs
  \<^verbatim>\<open>yelp_location_search\<close> for the location and the term, from the requests sent so far,
  and passes the table it returns to \<^verbatim>\<open>to_sql\<close> for the table
  \<^verbatim>\<open>business_search_results\<close> of the schema \<^verbatim>\<open>yelp\<close>. The requests of the fetch are then
  sent; the store is the one the append returns, or the old one when the append raises;
  an exception of the fetcher itself ends the run.
\<close>

theorem load_location_by_lookup:
  "(read_sql e (lookup_sql location (term_or_empty term)) (store w) = Inr df
      \<and> \<not> df_empty df
    \<longrightarrow> load_location e location term w = Inr w)
   \<and> ((read_sql e (lookup_sql location (term_or_empty term)) (store w) = Inl ex
        \<or> read_sql e (lookup_sql location (term_or_empty term)) (store w) = Inr df
          \<and> df_empty df)
      \<and> yelp_location_search e location term (http_sent w) = Inl err
    \<longrightarrow> load_location e location term w = Inl err)
   \<and> ((read_sql e (lookup_sql location (term_or_empty term)) (store w) = Inl ex
        \<or> read_sql e (lookup_sql location (term_or_empty term)) (store w) = Inr df
          \<and> df_empty df)
      \<and> yelp_location_search e location term (http_sent w) = Inr (yelp_data, sent')
      \<and> to_sql e yelp_data DESTINATION_TABLE DESTINATION_SCHEMA (store w) = Inr store'
    \<longrightarrow> load_location e location term w = Inr \<lparr>http_sent = sent', store = store'\<rparr>)
   \<and> ((read_sql e (lookup_sql location (term_or_empty term)) (store w) = Inl ex
        \<or> read_sql e (lookup_sql location (term_or_empty term)) (store w) = Inr df
          \<and> df_empty df)
      \<and> yelp_location_search e location term (http_sent w) = Inr (yelp_data, sent')
      \<and> to_sql e yelp_data DESTINATION_TABLE DESTINATION_SCHEMA (store w) = Inl ex'
    \<longrightarrow> load_location e location term w = Inr \<lparr>http_sent = sent', store = store w\<rparr>)"
proof -
  have found: "load_location e location term w = Inr w"
    if "read_sql e (lookup_sql location (term_or_empty term)) (store w) = Inr df"
      and "\<not> df_empty df"
    using that by (simp add: load_location_def Let_def)
  have absent: "load_location e location term w
      = (case yelp_location_search e location term (http_sent w) of
           Inl err \<Rightarrow> Inl err
         | Inr (yelp_data, sent') \<Rightarrow>
             (case to_sql e yelp_data DESTINATION_TABLE DESTINATION_SCHEMA (store w) of
                Inl ex \<Rightarrow> Inr \<lparr>http_sent = sent', store = store w\<rparr>
              | Inr store' \<Rightarrow> Inr \<lparr>http_sent = sent', store = store'\<rparr>))"
    if "read_sql e (lookup_sql location (term_or_empty term)) (store w) = Inl ex
        \<or> read_sql e (lookup_sql location (term_or_empty term)) (store w) = Inr df
          \<and> df_empty df"
    using that
    by (auto simp: load_location_def fetch_and_append_def Let_def DataFrame_def df_empty_def
             split: sum.splits)
  show ?thesis
    using found by (auto simp: absent)
qed

theorem load_location_by_lookup_witness:
  "load_location
     (example_env (scripted [page_of 1 [example_business]] server_error) springfield_store)
     ''Springfield, IL'' None \<lparr>http_sent = [], store = []\<rparr>
     = Inr \<lparr>http_sent = [], store = []\<rparr>
   \<and> map_sum id http_sent
       (load_location
          (example_env (scripted [page_of 1 [example_business]] server_error)
             springfield_store)
          ''Springfield, IL'' (Some ''Black owned'') \<lparr>http_sent = [], store = []\<rparr>)
     = Inr [''https://api.yelp.com/v3/businesses/search?&term=Black+owned&location=Springfield%2C+IL&sort=distance&limit=50&offset=0'']
   \<and> map_sum id (map (map (\<lambda>r. r ''_term'') \<circ> rows) \<circ> store)
       (load_location
          (example_env (scripted [page_of 1 [example_business]] server_error)
             springfield_store)
          ''Springfield, IL'' (Some ''Black owned'') \<lparr>http_sent = [], store = []\<rparr>)
     = Inr [[Some (Str ''Black owned'')]]
   \<and> map_sum id http_sent
       (load_location one_business_env ''Springfield, IL'' None \<lparr>http_sent = [], store = []\<rparr>)
     = Inr [springfield_url @ ''&limit=50&offset=0'']
   \<and> map_sum id store
       (load_location one_business_env ''Springfield, IL'' None \<lparr>http_sent = [], store = []\<rparr>)
     = map_sum id (\<lambda>p. [fst p])
         (yelp_location_search one_business_env ''Springfield, IL'' None [])
   \<and> map_sum id (map columns \<circ> store)
       (load_location one_business_env ''Springfield, IL'' None \<lparr>http_sent = [], store = []\<rparr>)
     = Inr [[''id'', ''categories'', ''coordinates'', ''transactions'', ''location'',
             ''_page_url'', ''_loaded_at'', ''_location'', ''_term'', ''_is_complete'']]
   \<and> map_sum id (map cells \<circ> store)
       (load_location one_business_env ''Springfield, IL'' None \<lparr>http_sent = [], store = []\<rparr>)
     = Inr [[[Some (Obj ''17''), Some (Str ''[]''), Some (Str ''[39.8, -89.6]''),
              Some (Str ''[]''), Some (Str ''{}''),
              Some (Str (springfield_url @ ''&limit=50&offset=0'')),
              Some (Timestamp 1700000001), Some (Str ''Springfield, IL''), Some (Str ''''),
              Some (Str ''True'')]]]
   \<and> map_sum id http_sent
       (load_location
          (example_env (scripted [page_of 1 [example_business]] server_error) fresh_store)
          ''Springfield, IL'' None \<lparr>http_sent = [], store = []\<rparr>)
     = Inr [springfield_url @ ''&limit=50&offset=0'']
   \<and> map_sum id (map cells \<circ> store)
       (load_location
          (example_env (scripted [page_of 1 [example_business]] server_error) fresh_store)
          ''Springfield, IL'' None \<lparr>http_sent = [], store = []\<rparr>)
     = Inr [[[Some (Obj ''17''), Some (Str ''[]''), Some (Str ''[39.8, -89.6]''),
              Some (Str ''[]''), Some (Str ''{}''),
              Some (Str (springfield_url @ ''&limit=50&offset=0'')),
              Some (Timestamp 1700000001), Some (Str ''Springfield, IL''), Some (Str ''''),
              Some (Str ''True'')]]]
   \<and> load_location placeholder_env ''Springfield, IL'' None \<lparr>http_sent = [], store = []\<rparr>
     = Inr \<lparr>http_sent = [springfield_url @ ''&limit=50&offset=0''], store = []\<rparr>
   \<and> load_location nowhere_env ''Springfield, IL'' None \<lparr>http_sent = [], store = []\<rparr>
     = Inl KeyError"
proof -
  let ?srv = "scripted [page_of 1 [example_business]] server_error"
  let ?w = "\<lparr>http_sent = [], store = [] :: string table list\<rparr>"
  let ?found = "\<lparr>columns = [''1''], rows = [[''1'' \<mapsto> Obj ''1'']]\<rparr> :: string table"
  let ?url = "springfield_url @ ''&limit=50&offset=0''"
  let ?burl = "''https://api.yelp.com/v3/businesses/search?&term=Black+owned&location=Springfield%2C+IL&sort=distance&limit=50&offset=0''"
  let ?down = "OtherException ''no connection''"

  \<comment> \<open>rows found: nothing is done\<close>
  have "read_sql (example_env ?srv springfield_store)
          (lookup_sql ''Springfield, IL'' (term_or_empty None)) (store ?w) = Inr ?found
        \<and> \<not> df_empty ?found"
    by (simp add: example_env_def springfield_store_def lookup_sql_def term_or_empty_def
          DESTINATION_SCHEMA_def DESTINATION_TABLE_def df_empty_def)
  with load_location_by_lookup
         [of "example_env ?srv springfield_store" "''Springfield, IL''" None ?w
            ?found]
  have c1: "load_location (example_env ?srv springfield_store) ''Springfield, IL'' None ?w
              = Inr ?w"
    by simp

  \<comment> \<open>the same store has no row for another term: fetch and append\<close>
  from black_owned_table_any [of springfield_store] obtain tb
    where runb: "yelp_location_search (example_env ?srv springfield_store)
                   ''Springfield, IL'' (Some ''Black owned'') [] = Inr (tb, [?burl])"
      and termb: "map (\<lambda>r. r ''_term'') (rows tb) = [Some (Str ''Black owned'')]"
    by (elim exE conjE) (rule that, assumption+)
  have lkb: "read_sql (example_env ?srv springfield_store)
          (lookup_sql ''Springfield, IL'' (term_or_empty (Some ''Black owned''))) (store ?w)
        = Inr DataFrame \<and> df_empty (DataFrame :: string table)"
    by (simp add: example_env_def springfield_store_def lookup_sql_def term_or_empty_def
          DESTINATION_SCHEMA_def DESTINATION_TABLE_def df_empty_def DataFrame_def)
  have apb: "to_sql (example_env ?srv springfield_store) tb DESTINATION_TABLE
               DESTINATION_SCHEMA (store ?w) = Inr [tb]"
    by (simp add: example_env_def example_append_def DESTINATION_SCHEMA_def
          DESTINATION_TABLE_def)
  from load_location_by_lookup
         [of "example_env ?srv springfield_store" "''Springfield, IL''" "Some ''Black owned''" ?w
            DataFrame _ _ tb "[?burl]" "[tb]"]
       lkb runb apb
  have llb: "load_location (example_env ?srv springfield_store) ''Springfield, IL''
               (Some ''Black owned'') ?w = Inr \<lparr>http_sent = [?burl], store = [tb]\<rparr>"
    by simp
  have c2: "map_sum id http_sent
              (load_location (example_env ?srv springfield_store) ''Springfield, IL''
                 (Some ''Black owned'') ?w) = Inr [?burl]"
    unfolding llb by simp
  have c3: "map_sum id (map (map (\<lambda>r. r ''_term'') \<circ> rows) \<circ> store)
              (load_location (example_env ?srv springfield_store) ''Springfield, IL''
                 (Some ''Black owned'') ?w) = Inr [[Some (Str ''Black owned'')]]"
    unfolding llb by (simp add: termb)

  \<comment> \<open>the lookup raises: fetch and append\<close>
  from one_business_table_any [of no_store] obtain t
    where run: "yelp_location_search (example_env ?srv no_store) ''Springfield, IL'' None []
                  = Inr (t, [?url])"
      and cols: "columns t = [''id'', ''categories'', ''coordinates'', ''transactions'',
                   ''location'', ''_page_url'', ''_loaded_at'', ''_location'', ''_term'',
                   ''_is_complete'']"
      and cs: "map (\<lambda>r. map r (columns t)) (rows t)
          = [[Some (Obj ''17''), Some (Str ''[]''), Some (Str ''[39.8, -89.6]''),
              Some (Str ''[]''), Some (Str ''{}''), Some (Str ?url),
              Some (Timestamp 1700000001), Some (Str ''Springfield, IL''), Some (Str ''''),
              Some (Str ''True'')]]"
    by (elim exE conjE) (rule that, assumption+)
  have lk: "read_sql (example_env ?srv no_store)
          (lookup_sql ''Springfield, IL'' (term_or_empty None)) (store ?w) = Inl ?down"
    by (simp add: example_env_def no_store_def)
  have ap: "to_sql (example_env ?srv no_store) t DESTINATION_TABLE DESTINATION_SCHEMA
              (store ?w) = Inr [t]"
    by (simp add: example_env_def example_append_def DESTINATION_SCHEMA_def
          DESTINATION_TABLE_def)
  from load_location_by_lookup
         [of "example_env ?srv no_store" "''Springfield, IL''" None ?w
            _ ?down _ t "[?url]" "[t]"]
       lk run ap
  have "load_location (example_env ?srv no_store) ''Springfield, IL'' None ?w
          = Inr \<lparr>http_sent = [?url], store = [t]\<rparr>"
    by simp
  then have ll: "load_location one_business_env ''Springfield, IL'' None ?w
                   = Inr \<lparr>http_sent = [?url], store = [t]\<rparr>"
    by (simp only: one_business_env_def)
  from run have run1: "yelp_location_search one_business_env ''Springfield, IL'' None []
                         = Inr (t, [?url])"
    by (simp only: one_business_env_def)
  have c4: "map_sum id http_sent (load_location one_business_env ''Springfield, IL'' None ?w)
              = Inr [?url]"
    unfolding ll by simp
  have c5: "map_sum id store (load_location one_business_env ''Springfield, IL'' None ?w)
              = map_sum id (\<lambda>p. [fst p])
                  (yelp_location_search one_business_env ''Springfield, IL'' None [])"
    unfolding ll run1 by simp
  have c6: "map_sum id (map columns \<circ> store)
              (load_location one_business_env ''Springfield, IL'' None ?w)
            = Inr [[''id'', ''categories'', ''coordinates'', ''transactions'', ''location'',
                    ''_page_url'', ''_loaded_at'', ''_location'', ''_term'',
                    ''_is_complete'']]"
    unfolding ll by (simp add: cols)
  have c7: "map_sum id (map cells \<circ> store)
              (load_location one_business_env ''Springfield, IL'' None ?w)
            = Inr [[[Some (Obj ''17''), Some (Str ''[]''), Some (Str ''[39.8, -89.6]''),
              Some (Str ''[]''), Some (Str ''{}''), Some (Str ?url),
              Some (Timestamp 1700000001), Some (Str ''Springfield, IL''), Some (Str ''''),
              Some (Str ''True'')]]]"
    unfolding ll by (simp add: cells_def cs)

  \<comment> \<open>the lookup finds no row: the same\<close>
  from one_business_table_any [of fresh_store] obtain t'
    where run': "yelp_location_search (example_env ?srv fresh_store) ''Springfield, IL'' None []
                  = Inr (t', [?url])"
      and cs': "map (\<lambda>r. map r (columns t')) (rows t')
          = [[Some (Obj ''17''), Some (Str ''[]''), Some (Str ''[39.8, -89.6]''),
              Some (Str ''[]''), Some (Str ''{}''), Some (Str ?url),
              Some (Timestamp 1700000001), Some (Str ''Springfield, IL''), Some (Str ''''),
              Some (Str ''True'')]]"
    by (elim exE conjE) (rule that, assumption+)
  have lk': "read_sql (example_env ?srv fresh_store)
          (lookup_sql ''Springfield, IL'' (term_or_empty None)) (store ?w)
        = Inr DataFrame \<and> df_empty (DataFrame :: string table)"
    by (simp add: example_env_def fresh_store_def df_empty_def DataFrame_def)
  have ap': "to_sql (example_env ?srv fresh_store) t' DESTINATION_TABLE DESTINATION_SCHEMA
              (store ?w) = Inr [t']"
    by (simp add: example_env_def example_append_def DESTINATION_SCHEMA_def
          DESTINATION_TABLE_def)
  from load_location_by_lookup
         [of "example_env ?srv fresh_store" "''Springfield, IL''" None ?w
            DataFrame _ _ t' "[?url]" "[t']"]
       lk' run' ap'
  have ll': "load_location (example_env ?srv fresh_store) ''Springfield, IL'' None ?w
          = Inr \<lparr>http_sent = [?url], store = [t']\<rparr>"
    by simp
  have c8: "map_sum id http_sent
              (load_location (example_env ?srv fresh_store) ''Springfield, IL'' None ?w)
              = Inr [?url]"
    unfolding ll' by simp
  have c9: "map_sum id (map cells \<circ> store)
              (load_location (example_env ?srv fresh_store) ''Springfield, IL'' None ?w)
            = Inr [[[Some (Obj ''17''), Some (Str ''[]''), Some (Str ''[39.8, -89.6]''),
              Some (Str ''[]''), Some (Str ''{}''), Some (Str ?url),
              Some (Timestamp 1700000001), Some (Str ''Springfield, IL''), Some (Str ''''),
              Some (Str ''True'')]]]"
    unfolding ll' by (simp add: cells_def cs')

  \<comment> \<open>the lookup and the append raise: the requests are sent, the store is as it was\<close>
  from placeholder_table obtain tp
    where runp: "yelp_location_search placeholder_env ''Springfield, IL'' None []
                   = Inr (tp, [?url])"
    by (elim exE conjE) (rule that, assumption+)
  have lkp: "read_sql placeholder_env
          (lookup_sql ''Springfield, IL'' (term_or_empty None)) (store ?w) = Inl ?down"
    by (simp add: placeholder_env_def example_env_def no_store_def)
  have app: "to_sql placeholder_env tp DESTINATION_TABLE DESTINATION_SCHEMA (store ?w)
               = Inl ?down"
    by (simp add: placeholder_env_def example_env_def)
  from load_location_by_lookup
         [of placeholder_env "''Springfield, IL''" None ?w
            _ ?down _ tp "[?url]" _ ?down]
       lkp runp app
  have c10: "load_location placeholder_env ''Springfield, IL'' None ?w
               = Inr \<lparr>http_sent = [?url], store = []\<rparr>"
    by simp

  \<comment> \<open>the fetcher raises: so does the driver\<close>
  have lkn: "read_sql nowhere_env
          (lookup_sql ''Springfield, IL'' (term_or_empty None)) (store ?w) = Inl ?down"
    by (simp add: nowhere_env_def example_env_def no_store_def)
  from load_location_by_lookup
         [of nowhere_env "''Springfield, IL''" None ?w
            _ ?down KeyError]
       lkn nowhere_fetch
  have c11: "load_location nowhere_env ''Springfield, IL'' None ?w = Inl KeyError"
    by simp

  show ?thesis
    by (intro conjI) (fact c1 c2 c3 c4 c5 c6 c7 c8 c9 c10 c11)+
qed

end
